theory Spec2Isabelle
  imports Complex_Main "HOL-Library.Word"
begin

section \<open>Machine types, characters and the C library\<close>

text \<open>
  \<^verbatim>\<open>size_t\<close> and \<^verbatim>\<open>unsigned long\<close> are 64-bit unsigned integers (an LP64
  platform): arithmetic on them wraps. A \<^verbatim>\<open>float\<close> stored in a scan array is
  modelled by the exact decimal value of the text it was parsed from; rounding to
  binary32 is a function of that value and plays no role below.
\<close>

type_synonym size_t = "64 word"
type_synonym float = rat

definition isspace :: "char \<Rightarrow> bool" where
  "isspace c = (c \<in> set [CHR '' '', CHR 0x09, CHR 0x0A, CHR 0x0B, CHR 0x0C, CHR 0x0D])"

definition isdigit :: "char \<Rightarrow> bool" where
  "isdigit c = (c \<in> set ''0123456789'')"

definition tolower :: "char \<Rightarrow> char" where
  "tolower c =
     (case map_of (zip ''ABCDEFGHIJKLMNOPQRSTUVWXYZ'' ''abcdefghijklmnopqrstuvwxyz'') c of
        Some l \<Rightarrow> l
      | None \<Rightarrow> c)"

definition digits_val :: "string \<Rightarrow> nat" where
  "digits_val ds = foldl (\<lambda>a c. 10 * a + (of_char c - 48)) 0 ds"

text \<open>An optional sign in front of a number: whether it is a minus, and what follows it.\<close>

definition is_minus :: "string \<Rightarrow> bool" where
  "is_minus s = (s \<noteq> [] \<and> hd s = CHR ''-'')"

definition skip_sign :: "string \<Rightarrow> string" where
  "skip_sign s = (if s \<noteq> [] \<and> (hd s = CHR ''-'' \<or> hd s = CHR ''+'') then tl s else s)"

text \<open>
  Modelled from the C standard: \<^verbatim>\<open>strtoul(data, &data, 10)\<close> of the C library, which is
  not part of the repository. White space is skipped, then an optional sign and a
  non-empty run of decimal digits are consumed. The result is the value (negated in
  the unsigned type after a minus sign, \<^verbatim>\<open>ULONG_MAX\<close> when out of range) and the
  unconsumed text; without digits nothing is consumed and the value is 0.
\<close>

definition strtoul :: "string \<Rightarrow> size_t \<times> string" where
  "strtoul s =
     (let t = dropWhile isspace s;
          u = skip_sign t;
          ds = takeWhile isdigit u;
          n = digits_val ds
      in if ds = [] then (0, s)
         else ((if 2 ^ 64 \<le> n then - 1 else if is_minus t then - of_nat n else of_nat n),
               dropWhile isdigit u))"

text \<open>
  Modelled from the C standard: \<^verbatim>\<open>strtof(data, &data)\<close> on a decimal floating
  constant: white space, an optional sign, digits with an optional fraction (at least
  one digit in all), and an optional exponent, which is consumed only when it has a
  digit. Hexadecimal constants, \<^verbatim>\<open>inf\<close> and \<^verbatim>\<open>nan\<close> are not modelled. Without a
  conversion nothing is consumed and the value is 0.
\<close>

definition strtof :: "string \<Rightarrow> float \<times> string" where
  "strtof s =
     (let t = dropWhile isspace s;
          u = skip_sign t;
          ip = takeWhile isdigit u;
          u1 = dropWhile isdigit u;
          dot = (u1 \<noteq> [] \<and> hd u1 = CHR ''.'');
          fp = (if dot then takeWhile isdigit (tl u1) else []);
          u2 = (if dot then dropWhile isdigit (tl u1) else u1);
          ex = (u2 \<noteq> [] \<and> (hd u2 = CHR ''e'' \<or> hd u2 = CHR ''E''));
          u3 = skip_sign (tl u2);
          ed = (if ex then takeWhile isdigit u3 else []);
          m = of_nat (digits_val (ip @ fp)) / 10 ^ length fp;
          v = (if ed = [] then m
               else if is_minus (tl u2) then m / 10 ^ digits_val ed
               else m * 10 ^ digits_val ed)
      in if ip = [] \<and> fp = [] then (0, s)
         else ((if is_minus t then - v else v),
               (if ed = [] then u2 else dropWhile isdigit u3)))"

text \<open>
  \<^verbatim>\<open>iss >> token\<close>: white space is skipped and the characters up to the next white
  space are the token; \<open>after_token\<close> is what the stream still holds.
\<close>

definition next_token :: "string \<Rightarrow> string" where
  "next_token s = takeWhile (\<lambda>c. \<not> isspace c) (dropWhile isspace s)"

definition after_token :: "string \<Rightarrow> string" where
  "after_token s = dropWhile (\<lambda>c. \<not> isspace c) (dropWhile isspace s)"

text \<open>The text a \<^verbatim>\<open>char\<close> buffer holds as a C string: up to the first NUL.\<close>

definition c_str :: "string \<Rightarrow> string" where
  "c_str s = takeWhile (\<lambda>c. c \<noteq> CHR 0x00) s"

text \<open>
  \<^verbatim>\<open>is.getline(line, 512)\<close> on a stream that still holds the bytes \<open>s\<close>: the buffer
  afterwards, the bytes left in the stream, and whether the stream is still good. At
  the end of the file nothing is extracted and the stream fails; a line of more than
  511 characters fills the buffer and fails the stream as well.
\<close>

definition getline_buf :: "string \<Rightarrow> string" where
  "getline_buf s = take 511 (takeWhile (\<lambda>c. c \<noteq> CHR 0x0A) s)"

definition getline_rest :: "string \<Rightarrow> string" where
  "getline_rest s =
     (if 511 < length (takeWhile (\<lambda>c. c \<noteq> CHR 0x0A) s) then drop 511 s
      else drop (Suc (length (takeWhile (\<lambda>c. c \<noteq> CHR 0x0A) s))) s)"

definition getline_ok :: "string \<Rightarrow> bool" where
  "getline_ok s = (s \<noteq> [] \<and> length (takeWhile (\<lambda>c. c \<noteq> CHR 0x0A) s) \<le> 511)"

section \<open>Data model (tsl.hpp)\<close>

datatype GridType = Unknown | Square | Hexagonal

datatype FileType = UnknownFile | Ang | Osc | Hdf

text \<open>
  A phase of the header. Names are extracted as strings and kept as they are. The
  numeric payloads of a phase (symmetry, lattice constants, the six integers of an hkl
  family, a row of elastic constants, the categories) are kept as the text handed to
  the stream extractors, one entry for each header line that supplied one: the number of
  entries of \<open>hklFam\<close> is \<^verbatim>\<open>hklFam.size()\<close>.
\<close>

record Phase =
  num :: size_t
  name :: string
  form :: string
  info :: string
  sym :: string
  lat :: "string list"
  hklFam :: "string list"
  el :: "string list"
  cats :: "string list"

text \<open>
  The orientation map. The \<^verbatim>\<open>float\<close> header values are kept as the token handed to
  the extractor; the coordinate arrays \<^verbatim>\<open>x\<close> and \<^verbatim>\<open>y\<close> are named \<open>x_um\<close> and
  \<open>y_um\<close>.
\<close>

record OrientationMap =
  pixPerUm :: string
  xStar :: string
  yStar :: string
  zStar :: string
  workingDistance :: string
  xStep :: string
  yStep :: string
  nColsOdd :: size_t
  nColsEven :: size_t
  nRows :: size_t
  operatorName :: string
  sampleId :: string
  scanId :: string
  gridType :: GridType
  phaseList :: "Phase list"
  eu :: "float list"
  x_um :: "float list"
  y_um :: "float list"
  iq :: "float list"
  ci :: "float list"
  sem :: "float list"
  fit :: "float list"
  phase :: "size_t list"

text \<open>
  Every exception tsl.hpp throws is a \<^verbatim>\<open>std::runtime_error\<close>; the constructors name
  the message and carry what the message prints.
  \<^item> \<open>FileNotFound f\<close>: "ang file f doesn't exist";
  \<^item> \<open>UnknownKeyword t\<close>: "unknown ang header keyword 't'";
  \<^item> \<open>MalformedPhaseRecord w n\<close>: "ang missing w for phase n";
  \<^item> \<open>MissingHeaderField k\<close>: "missing ang header value k";
  \<^item> \<open>TooFewColumns n\<close>: "unexpected number of ang values per point (got n, expected at least 8)";
  \<^item> \<open>UnsupportedGridType\<close>: "only Square and Hexagonal grid types are supported";
  \<^item> \<open>UnsupportedFileType\<close>: "unsupported file type (currently only .ang files are supported)";
  \<^item> \<open>TruncatedData n m\<close>: "file ended after reading n of m data points".
  \<open>LengthError\<close> is the \<^verbatim>\<open>std::length_error\<close> of the standard library.
  \<open>UndefinedBehaviour\<close> is no exception: it marks the places where the C++ has
  undefined behaviour (an index outside a vector or an array, \<^verbatim>\<open>back()\<close> of an empty
  vector, a pointer in front of the mapped file).
\<close>

datatype error =
    FileNotFound string
  | UnknownKeyword string
  | MalformedPhaseRecord string nat
  | MissingHeaderField string
  | TooFewColumns nat
  | UnsupportedGridType
  | UnsupportedFileType
  | TruncatedData nat nat
  | LengthError
  | UndefinedBehaviour string

definition bind_err :: "error + 'a \<Rightarrow> ('a \<Rightarrow> error + 'b) \<Rightarrow> error + 'b" where
  "bind_err r f = (case r of Inl e \<Rightarrow> Inl e | Inr v \<Rightarrow> f v)"

section \<open>File types and allocation\<close>

text \<open>\<^verbatim>\<open>getFileType\<close>: the lower-cased text after the last dot of the name.\<close>

definition getFileType :: "string \<Rightarrow> FileType" where
  "getFileType fileName =
     (if CHR ''.'' \<notin> set fileName then UnknownFile
      else let ext = map tolower (rev (takeWhile (\<lambda>c. c \<noteq> CHR ''.'') (rev fileName)))
           in if ext = ''ang'' then Ang
              else if ext = ''osc'' then Osc
              else if ext = ''hdf'' then Hdf
              else if ext = ''hdf5'' then Hdf
              else if ext = ''h5'' then Hdf
              else UnknownFile)"

definition CanRead :: "string \<Rightarrow> bool" where
  "CanRead fileName = (getFileType fileName = Ang)"

text \<open>
  The number of pixels \<^verbatim>\<open>allocate\<close> computes, in \<^verbatim>\<open>size_t\<close> arithmetic, and the
  exception of its \<^verbatim>\<open>default\<close> branch.
\<close>

definition totalPoints :: "GridType \<Rightarrow> size_t \<Rightarrow> size_t \<Rightarrow> size_t \<Rightarrow> error + size_t" where
  "totalPoints g colsOdd colsEven rows =
     (case g of
        Square \<Rightarrow> Inr (max colsOdd colsEven * rows)
      | Hexagonal \<Rightarrow>
          Inr ((rows div 2) * (colsOdd + colsEven) + (if rows mod 2 = 1 then colsOdd else 0))
      | Unknown \<Rightarrow> Inl UnsupportedGridType)"

text \<open>
  \<^verbatim>\<open>std::vector::resize\<close>: the first \<open>n\<close> elements are kept, new ones are zero.
  A size above \<^verbatim>\<open>max_size()\<close> raises \<^verbatim>\<open>std::length_error\<close>; \<^verbatim>\<open>max_size()\<close> is
  taken from libstdc++, where it is \<^verbatim>\<open>PTRDIFF_MAX / sizeof(T)\<close>, and \<open>elemBytes\<close> is
  the size of an element: 4 for \<^verbatim>\<open>float\<close>, 8 for \<^verbatim>\<open>size_t\<close>. Memory may also run
  out below that size (\<^verbatim>\<open>std::bad_alloc\<close>), which depends on the machine and is not
  modelled: where the model allocates and the code does not, the code has raised.
\<close>

definition max_size :: "nat \<Rightarrow> nat" where
  "max_size elemBytes = 9223372036854775807 div elemBytes"

definition resize :: "nat \<Rightarrow> size_t \<Rightarrow> 'a::zero list \<Rightarrow> error + 'a list" where
  "resize elemBytes n xs =
     (if max_size elemBytes < unat n then Inl LengthError
      else Inr (take (unat n) xs @ replicate (unat n - length xs) 0))"

text \<open>
  \<^verbatim>\<open>allocate\<close> (lines 210 to 235): the vectors are resized one after the other, and
  the first \<^verbatim>\<open>resize\<close> that raises ends the function.
\<close>

definition allocate :: "nat \<Rightarrow> OrientationMap \<Rightarrow> error + OrientationMap" where
  "allocate tokenCount om =
     bind_err (totalPoints (gridType om) (nColsOdd om) (nColsEven om) (nRows om)) (\<lambda>n.
     bind_err (resize 4 (3 * n) (eu om)) (\<lambda>eu1.
     bind_err (resize 4 n (x_um om)) (\<lambda>x1.
     bind_err (resize 4 n (y_um om)) (\<lambda>y1.
     bind_err (resize 4 n (iq om)) (\<lambda>iq1.
     bind_err (resize 4 n (ci om)) (\<lambda>ci1.
     bind_err (resize 8 n (phase om)) (\<lambda>phase1.
     bind_err (if 8 < tokenCount then resize 4 n (sem om) else Inr (sem om)) (\<lambda>sem1.
     bind_err (if 9 < tokenCount then resize 4 n (fit om) else Inr (fit om)) (\<lambda>fit1.
       Inr (om\<lparr>eu := eu1, x_um := x1, y_um := y1, iq := iq1, ci := ci1, phase := phase1,
               sem := sem1, fit := fit1\<rparr>))))))))))"

section \<open>The header of an ang file\<close>

text \<open>
  \<^verbatim>\<open>iss >> field\<close> after the key of a header line, where \<open>rest\<close> is what the line
  still holds. Without a further token the extraction fails before it assigns and the
  field keeps its value. A string or \<^verbatim>\<open>float\<close> field receives the token, a
  \<^verbatim>\<open>size_t\<close> field the number its digits spell (0 when it has none). The grid type
  is read through a local string, which is empty when there is no token.
\<close>

definition extract_text :: "string \<Rightarrow> string \<Rightarrow> string" where
  "extract_text rest old = (if next_token rest = [] then old else next_token rest)"

definition extract_size_t :: "string \<Rightarrow> size_t \<Rightarrow> size_t" where
  "extract_size_t rest old =
     (if next_token rest = [] then old else fst (strtoul (next_token rest)))"

definition extract_GridType :: "string \<Rightarrow> GridType" where
  "extract_GridType rest =
     (if next_token rest = ''SqrGrid'' then Square
      else if next_token rest = ''HexGrid'' then Hexagonal
      else Unknown)"

text \<open>The local flags of \<^verbatim>\<open>readAngHeader\<close> and their initial values.\<close>

record HeaderVars =
  readPixPerUm :: bool
  readXStar :: bool
  readYStar :: bool
  readZStar :: bool
  readWorkingDistance :: bool
  readXStep :: bool
  readYStep :: bool
  readColsOdd :: bool
  readColsEven :: bool
  readRows :: bool
  readOperatorName :: bool
  readSampleId :: bool
  readScanId :: bool
  readGridType :: bool
  readPhaseSymmetry :: bool
  targetFamilies :: size_t
  readPhaseMaterial :: bool
  readPhaseFormula :: bool
  readPhaseInfo :: bool
  readPhaseLattice :: bool
  readPhaseHkl :: bool
  phaseElasticCount :: size_t
  readPhaseCategories :: bool

definition initialVars :: HeaderVars where
  "initialVars =
     \<lparr>readPixPerUm = False, readXStar = False, readYStar = False, readZStar = False,
      readWorkingDistance = False, readXStep = False, readYStep = False,
      readColsOdd = False, readColsEven = False, readRows = False,
      readOperatorName = False, readSampleId = False, readScanId = False,
      readGridType = False,
      readPhaseSymmetry = True, targetFamilies = 0, readPhaseMaterial = True,
      readPhaseFormula = True, readPhaseInfo = True, readPhaseLattice = True,
      readPhaseHkl = True, phaseElasticCount = 6, readPhaseCategories = True\<rparr>"

text \<open>A phase as \<^verbatim>\<open>phaseList.resize(size + 1)\<close> creates it.\<close>

definition blankPhase :: Phase where
  "blankPhase =
     \<lparr>num = 0, name = [], form = [], info = [], sym = [], lat = [], hklFam = [], el = [],
      cats = []\<rparr>"

text \<open>An update of \<^verbatim>\<open>phaseList.back()\<close>, which is undefined on an empty list.\<close>

definition updBack :: "(Phase \<Rightarrow> Phase) \<Rightarrow> OrientationMap \<Rightarrow> error + OrientationMap" where
  "updBack f om =
     (if phaseList om = [] then Inl (UndefinedBehaviour ''phaseList.back() of an empty list'')
      else Inr (om\<lparr>phaseList := butlast (phaseList om) @ [f (last (phaseList om))]\<rparr>))"

text \<open>
  The checks of lines 329 to 340, made when a \<^verbatim>\<open>Phase\<close> key starts a new phase, and
  the checks of lines 392 to 403, made after the last header line: there the tests of the
  elastic constants and of the categories are commented out.
\<close>

definition checkPreviousPhase :: "OrientationMap \<Rightarrow> HeaderVars \<Rightarrow> error option" where
  "checkPreviousPhase om hv =
     (let n = length (phaseList om) in
      if \<not> readPhaseMaterial hv then Some (MalformedPhaseRecord ''material name'' n)
      else if \<not> readPhaseFormula hv then Some (MalformedPhaseRecord ''formula'' n)
      else if \<not> readPhaseInfo hv then Some (MalformedPhaseRecord ''info'' n)
      else if \<not> readPhaseSymmetry hv then Some (MalformedPhaseRecord ''symmetry'' n)
      else if \<not> readPhaseLattice hv then Some (MalformedPhaseRecord ''lattice constants'' n)
      else if \<not> readPhaseHkl hv then Some (MalformedPhaseRecord ''hkl families'' n)
      else if phaseElasticCount hv \<noteq> 6 then Some (MalformedPhaseRecord ''elastic constants'' n)
      else if \<not> readPhaseCategories hv then Some (MalformedPhaseRecord ''categories'' n)
      else if phaseList om \<noteq> []
              \<and> unat (targetFamilies hv) < length (hklFam (last (phaseList om)))
        then Some (MalformedPhaseRecord ''some hkl families'' n)
      else None)"

definition checkFinalPhase :: "OrientationMap \<Rightarrow> HeaderVars \<Rightarrow> error option" where
  "checkFinalPhase om hv =
     (let n = length (phaseList om) in
      if \<not> readPhaseMaterial hv then Some (MalformedPhaseRecord ''material name'' n)
      else if \<not> readPhaseFormula hv then Some (MalformedPhaseRecord ''formula'' n)
      else if \<not> readPhaseInfo hv then Some (MalformedPhaseRecord ''info'' n)
      else if \<not> readPhaseSymmetry hv then Some (MalformedPhaseRecord ''symmetry'' n)
      else if \<not> readPhaseLattice hv then Some (MalformedPhaseRecord ''lattice constants'' n)
      else if \<not> readPhaseHkl hv then Some (MalformedPhaseRecord ''hkl families'' n)
      else if phaseList om \<noteq> []
              \<and> unat (targetFamilies hv) < length (hklFam (last (phaseList om)))
        then Some (MalformedPhaseRecord ''some hkl families'' n)
      else None)"

text \<open>The checks of lines 406 to 419, in their order.\<close>

definition checkHeaderValues :: "HeaderVars \<Rightarrow> error option" where
  "checkHeaderValues hv =
     (if \<not> readPixPerUm hv then Some (MissingHeaderField ''TEM_PIXperUM'')
      else if \<not> readXStar hv then Some (MissingHeaderField ''x-star'')
      else if \<not> readYStar hv then Some (MissingHeaderField ''y-star'')
      else if \<not> readZStar hv then Some (MissingHeaderField ''z-star'')
      else if \<not> readWorkingDistance hv then Some (MissingHeaderField ''WorkingDistance'')
      else if \<not> readGridType hv then Some (MissingHeaderField ''GRID'')
      else if \<not> readXStep hv then Some (MissingHeaderField ''XSTEP'')
      else if \<not> readYStep hv then Some (MissingHeaderField ''YSTEP'')
      else if \<not> readColsOdd hv then Some (MissingHeaderField ''NCOLS_ODD'')
      else if \<not> readColsEven hv then Some (MissingHeaderField ''NCOLS_EVEN'')
      else if \<not> readRows hv then Some (MissingHeaderField ''NROWS'')
      else if \<not> readOperatorName hv then Some (MissingHeaderField ''OPERATOR'')
      else if \<not> readSampleId hv then Some (MissingHeaderField ''SAMPLEID'')
      else if \<not> readScanId hv then Some (MissingHeaderField ''SCANID'')
      else None)"

text \<open>
  The body of the header loop for one line (lines 308 to 386): \<open>l\<close> is the text of the
  line after its \<^verbatim>\<open>#\<close>. A line without a token changes nothing.
\<close>

definition parseHeaderLine ::
  "string \<Rightarrow> OrientationMap \<times> HeaderVars \<Rightarrow> error + OrientationMap \<times> HeaderVars" where
  "parseHeaderLine l st =
     (let token = next_token l; rest = after_token l; om = fst st; hv = snd st in
      if token = [] then Inr st
      else if token = ''TEM_PIXperUM'' then
        Inr (om\<lparr>pixPerUm := extract_text rest (pixPerUm om)\<rparr>, hv\<lparr>readPixPerUm := True\<rparr>)
      else if token = ''x-star'' then
        Inr (om\<lparr>xStar := extract_text rest (xStar om)\<rparr>, hv\<lparr>readXStar := True\<rparr>)
      else if token = ''y-star'' then
        Inr (om\<lparr>yStar := extract_text rest (yStar om)\<rparr>, hv\<lparr>readYStar := True\<rparr>)
      else if token = ''z-star'' then
        Inr (om\<lparr>zStar := extract_text rest (zStar om)\<rparr>, hv\<lparr>readZStar := True\<rparr>)
      else if token = ''WorkingDistance'' then
        Inr (om\<lparr>workingDistance := extract_text rest (workingDistance om)\<rparr>,
             hv\<lparr>readWorkingDistance := True\<rparr>)
      else if token = ''GRID:'' then
        Inr (om\<lparr>gridType := extract_GridType rest\<rparr>, hv\<lparr>readGridType := True\<rparr>)
      else if token = ''XSTEP:'' then
        Inr (om\<lparr>xStep := extract_text rest (xStep om)\<rparr>, hv\<lparr>readXStep := True\<rparr>)
      else if token = ''YSTEP:'' then
        Inr (om\<lparr>yStep := extract_text rest (yStep om)\<rparr>, hv\<lparr>readYStep := True\<rparr>)
      else if token = ''NCOLS_ODD:'' then
        Inr (om\<lparr>nColsOdd := extract_size_t rest (nColsOdd om)\<rparr>, hv\<lparr>readColsOdd := True\<rparr>)
      else if token = ''NCOLS_EVEN:'' then
        Inr (om\<lparr>nColsEven := extract_size_t rest (nColsEven om)\<rparr>, hv\<lparr>readColsEven := True\<rparr>)
      else if token = ''NROWS:'' then
        Inr (om\<lparr>nRows := extract_size_t rest (nRows om)\<rparr>, hv\<lparr>readRows := True\<rparr>)
      else if token = ''OPERATOR:'' then
        Inr (om\<lparr>operatorName := extract_text rest (operatorName om)\<rparr>,
             hv\<lparr>readOperatorName := True\<rparr>)
      else if token = ''SAMPLEID:'' then
        Inr (om\<lparr>sampleId := extract_text rest (sampleId om)\<rparr>, hv\<lparr>readSampleId := True\<rparr>)
      else if token = ''SCANID:'' then
        Inr (om\<lparr>scanId := extract_text rest (scanId om)\<rparr>, hv\<lparr>readScanId := True\<rparr>)
      else if token = ''Phase'' then
        (case checkPreviousPhase om hv of
           Some e \<Rightarrow> Inl e
         | None \<Rightarrow>
             Inr (om\<lparr>phaseList := phaseList om @ [blankPhase\<lparr>num := extract_size_t rest 0\<rparr>]\<rparr>,
                  hv\<lparr>targetFamilies := 0, phaseElasticCount := 0,
                     readPhaseSymmetry := False, readPhaseMaterial := False,
                     readPhaseFormula := False, readPhaseInfo := False,
                     readPhaseLattice := False, readPhaseHkl := False,
                     readPhaseCategories := False\<rparr>))
      else if token = ''MaterialName'' then
        bind_err (updBack (\<lambda>p. p\<lparr>name := extract_text rest (name p)\<rparr>) om)
          (\<lambda>om'. Inr (om', hv\<lparr>readPhaseMaterial := True\<rparr>))
      else if token = ''Formula'' then
        bind_err (updBack (\<lambda>p. p\<lparr>form := extract_text rest (form p)\<rparr>) om)
          (\<lambda>om'. Inr (om', hv\<lparr>readPhaseFormula := True\<rparr>))
      else if token = ''Info'' then
        bind_err (updBack (\<lambda>p. p\<lparr>info := extract_text rest (info p)\<rparr>) om)
          (\<lambda>om'. Inr (om', hv\<lparr>readPhaseInfo := True\<rparr>))
      else if token = ''Symmetry'' then
        bind_err (updBack (\<lambda>p. p\<lparr>sym := extract_text rest (sym p)\<rparr>) om)
          (\<lambda>om'. Inr (om', hv\<lparr>readPhaseSymmetry := True\<rparr>))
      else if token = ''NumberFamilies'' then
        bind_err (updBack (\<lambda>p. p) om)
          (\<lambda>om'. Inr (om', hv\<lparr>targetFamilies := extract_size_t rest (targetFamilies hv),
                                 readPhaseHkl := True\<rparr>))
      else if token = ''LatticeConstants'' then
        bind_err (updBack (\<lambda>p. p\<lparr>lat := lat p @ [rest]\<rparr>) om)
          (\<lambda>om'. Inr (om', hv\<lparr>readPhaseLattice := True\<rparr>))
      else if token = ''hklFamilies'' then
        bind_err (updBack (\<lambda>p. p\<lparr>hklFam := hklFam p @ [rest]\<rparr>) om)
          (\<lambda>om'. Inr (om', hv))
      else if token = ''ElasticConstants'' then
        (if phaseElasticCount hv < 6 then
           bind_err (updBack (\<lambda>p. p\<lparr>el := el p @ [rest]\<rparr>) om)
             (\<lambda>om'. Inr (om', hv\<lparr>phaseElasticCount := phaseElasticCount hv + 1\<rparr>))
         else Inl (UndefinedBehaviour ''el[6*phaseElasticCount] outside the array''))
      else if take 10 token = ''Categories'' then
        bind_err (updBack (\<lambda>p. if rest = [] then p else p\<lparr>cats := cats p @ [drop 10 token @ rest]\<rparr>) om)
          (\<lambda>om'. Inr (om', hv\<lparr>readPhaseCategories := True\<rparr>))
      else Inl (UnknownKeyword token))"

text \<open>
  The header loop (lines 306 to 387) on the bytes \<open>s\<close> the stream still holds:
  \<^verbatim>\<open>peek\<close> looks at the next byte, \<^verbatim>\<open>getline\<close> takes the line, and the text after
  the \<^verbatim>\<open>#\<close> is parsed. A line that does not fit the buffer fails the stream, after
  which \<^verbatim>\<open>peek\<close> finds no \<^verbatim>\<open>#\<close>. The result is the state, the bytes left and
  whether the stream is good.
\<close>

function readAngHeaderLoop ::
  "string \<Rightarrow> OrientationMap \<times> HeaderVars
     \<Rightarrow> error + (OrientationMap \<times> HeaderVars) \<times> string \<times> bool" where
  "readAngHeaderLoop s st =
     (if s \<noteq> [] \<and> hd s = CHR ''#'' then
        (case parseHeaderLine (c_str (tl (getline_buf s))) st of
           Inl e \<Rightarrow> Inl e
         | Inr st' \<Rightarrow>
             if getline_ok s then readAngHeaderLoop (getline_rest s) st'
             else Inr (st', getline_rest s, False))
      else Inr (st, s, True))"
  by pat_completeness auto
termination
  by (relation "measure (\<lambda>(s, st). length s)") (auto simp: getline_ok_def getline_rest_def)

text \<open>\<^verbatim>\<open>while(iss >> token) tokenCount++\<close> (line 429).\<close>

function countTokens :: "string \<Rightarrow> nat" where
  "countTokens s = (if next_token s = [] then 0 else Suc (countTokens (after_token s)))"
  by pat_completeness auto

termination
proof (relation "measure length")
  show "wf (measure length)" by simp
next
  fix s :: string
  assume "next_token s \<noteq> []"
  then have "0 < length (takeWhile (\<lambda>c. \<not> isspace c) (dropWhile isspace s))"
    by (simp add: next_token_def)
  moreover have "length (takeWhile (\<lambda>c. \<not> isspace c) (dropWhile isspace s))
      + length (dropWhile (\<lambda>c. \<not> isspace c) (dropWhile isspace s))
      = length (dropWhile isspace s)"
    by (metis length_append takeWhile_dropWhile_id)
  moreover have "length (dropWhile isspace s) \<le> length s"
    by (rule length_dropWhile_le)
  ultimately have "length (after_token s) < length s"
    unfolding after_token_def by linarith
  then show "(after_token s, s) \<in> measure length" by simp
qed

text \<open>
  \<^verbatim>\<open>readAngHeader\<close>: the loop, the checks of the last phase and of the header values,
  and the number of tokens of the first data line, which is read and then put back
  (lines 422 to 435). After a failed stream the buffer holds the empty string. The
  result is the map, the token count, the bytes left and whether the stream is good: it
  is not when the first data line did not fit the buffer.
\<close>

definition readAngHeader ::
  "string \<Rightarrow> OrientationMap \<Rightarrow> error + OrientationMap \<times> nat \<times> string \<times> bool" where
  "readAngHeader s om =
     bind_err (readAngHeaderLoop s (om, initialVars)) (\<lambda>r.
       let om' = fst (fst r); hv = snd (fst r); rest = fst (snd r); good = snd (snd r) in
       case checkFinalPhase om' hv of
         Some e \<Rightarrow> Inl e
       | None \<Rightarrow>
           (case checkHeaderValues hv of
              Some e \<Rightarrow> Inl e
            | None \<Rightarrow>
                (let line = (if good then getline_buf rest else []);
                     tokenCount = countTokens (c_str line)
                 in if tokenCount < 8 then Inl (TooFewColumns tokenCount)
                    else Inr (om', tokenCount, rest, good \<and> getline_ok rest))))"

section \<open>The point data\<close>

text \<open>
  The traversal variables of both decoders, and lines 470 to 474 of \<^verbatim>\<open>readAngData\<close>,
  which lines 515 to 519 of \<^verbatim>\<open>readAngDataMemMap\<close> repeat word for word: the column
  is decremented, and when it was 0 the row is complete.
\<close>

record Cursor =
  evenRow :: bool
  completeRowPoints :: size_t
  currentCol :: size_t

definition firstPoint :: "size_t \<Rightarrow> Cursor" where
  "firstPoint colsEven = \<lparr>evenRow = True, completeRowPoints = 0, currentCol = colsEven - 1\<rparr>"

definition nextPoint :: "size_t \<Rightarrow> size_t \<Rightarrow> Cursor \<Rightarrow> Cursor" where
  "nextPoint colsEven colsOdd c =
     (if currentCol c = 0 then
        \<lparr>evenRow = \<not> evenRow c,
         completeRowPoints = completeRowPoints c + (if evenRow c then colsEven else colsOdd),
         currentCol = (if \<not> evenRow c then colsEven - 1 else colsOdd - 1)\<rparr>
      else c\<lparr>currentCol := currentCol c - 1\<rparr>)"

definition pointIndex :: "Cursor \<Rightarrow> size_t" where
  "pointIndex c = completeRowPoints c + currentCol c"

text \<open>
  An assignment \<^verbatim>\<open>v[i] = ...\<close> to a vector: outside the vector the C++ has undefined
  behaviour.
\<close>

definition storeAt :: "'a list \<Rightarrow> size_t \<Rightarrow> 'a \<Rightarrow> error + 'a list" where
  "storeAt xs i v =
     (if unat i < length xs then Inr (xs[unat i := v])
      else Inl (UndefinedBehaviour ''index outside the vector''))"

text \<open>
  The eight fields every point has (lines 455 to 462 and, word for word, 498 to 505):
  each is parsed at the cursor \<open>data\<close>, which moves behind it, and stored at \<open>i\<close>.
\<close>

definition parseMandatory ::
  "size_t \<Rightarrow> string \<Rightarrow> OrientationMap \<Rightarrow> error + OrientationMap \<times> string" where
  "parseMandatory i d0 om =
     bind_err (storeAt (eu om) (3 * i) (fst (strtof d0))) (\<lambda>eu1. let d1 = snd (strtof d0) in
     bind_err (storeAt eu1 (3 * i + 1) (fst (strtof d1))) (\<lambda>eu2. let d2 = snd (strtof d1) in
     bind_err (storeAt eu2 (3 * i + 2) (fst (strtof d2))) (\<lambda>eu3. let d3 = snd (strtof d2) in
     bind_err (storeAt (x_um om) i (fst (strtof d3))) (\<lambda>x1. let d4 = snd (strtof d3) in
     bind_err (storeAt (y_um om) i (fst (strtof d4))) (\<lambda>y1. let d5 = snd (strtof d4) in
     bind_err (storeAt (iq om) i (fst (strtof d5))) (\<lambda>iq1. let d6 = snd (strtof d5) in
     bind_err (storeAt (ci om) i (fst (strtof d6))) (\<lambda>ci1. let d7 = snd (strtof d6) in
     bind_err (storeAt (phase om) i (fst (strtoul d7))) (\<lambda>phase1.
       Inr (om\<lparr>eu := eu3, x_um := x1, y_um := y1, iq := iq1, ci := ci1, phase := phase1\<rparr>,
            snd (strtoul d7))))))))))"

text \<open>
  One point of \<^verbatim>\<open>readAngData\<close> (lines 454 to 468), parsed from the line buffer; the
  cursor is a local of the loop body and is dropped.
\<close>

definition parseLine ::
  "bool \<Rightarrow> bool \<Rightarrow> size_t \<Rightarrow> string \<Rightarrow> OrientationMap \<Rightarrow> error + OrientationMap" where
  "parseLine readSem readFit i line om =
     bind_err (parseMandatory i line om) (\<lambda>r.
       let om1 = fst r; d8 = snd r in
       if readSem then
         bind_err (storeAt (sem om1) i (fst (strtof d8))) (\<lambda>sem1.
           if readFit then
             bind_err (storeAt (fit om1) i (fst (strtof (snd (strtof d8))))) (\<lambda>fit1.
               Inr (om1\<lparr>sem := sem1, fit := fit1\<rparr>))
           else Inr (om1\<lparr>sem := sem1\<rparr>))
       else Inr om1)"

text \<open>
  The loop of \<^verbatim>\<open>readAngData\<close>. Its first argument counts the points still wanted,
  \<^verbatim>\<open>totalPoints - pointsRead\<close>: the loop runs while it is positive and stops early
  when \<^verbatim>\<open>getline\<close> fails.
\<close>

fun readAngDataLoop ::
  "nat \<Rightarrow> bool \<Rightarrow> bool \<Rightarrow> string \<Rightarrow> Cursor \<Rightarrow> nat \<Rightarrow> OrientationMap
     \<Rightarrow> error + OrientationMap \<times> nat" where
  "readAngDataLoop 0 readSem readFit s c pointsRead om = Inr (om, pointsRead)"
| "readAngDataLoop (Suc n) readSem readFit s c pointsRead om =
     (if \<not> getline_ok s then Inr (om, pointsRead)
      else bind_err (parseLine readSem readFit (pointIndex c) (getline_buf s) om) (\<lambda>om'.
             readAngDataLoop n readSem readFit (getline_rest s)
               (nextPoint (nColsEven om) (nColsOdd om) c) (Suc pointsRead) om'))"

definition readAngData :: "string \<Rightarrow> nat \<Rightarrow> OrientationMap \<Rightarrow> error + OrientationMap \<times> nat" where
  "readAngData s tokens om =
     readAngDataLoop (length (iq om)) (8 < tokens) (9 < tokens) s
       (firstPoint (nColsEven om)) 0 om"

text \<open>
  One point of \<^verbatim>\<open>readAngDataMemMap\<close> (lines 497 to 512), parsed at the cursor into the
  mapped file; the cursor behind the point is returned. Bytes behind the last byte of
  the file read as the end of the text (the zero fill of the last page), except for the
  search of the end of the line in line 510, which runs on until it finds one.
\<close>

definition parseMapped ::
  "bool \<Rightarrow> bool \<Rightarrow> bool \<Rightarrow> size_t \<Rightarrow> string \<Rightarrow> OrientationMap
     \<Rightarrow> error + OrientationMap \<times> string" where
  "parseMapped readSem readFit extraTok i data om =
     bind_err (parseMandatory i data om) (\<lambda>r.
       let om1 = fst r; d8 = snd r in
       if readSem then
         bind_err (storeAt (sem om1) i (fst (strtof d8))) (\<lambda>sem1. let d9 = snd (strtof d8) in
           if readFit then
             bind_err (storeAt (fit om1) i (fst (strtof d9))) (\<lambda>fit1. let d10 = snd (strtof d9) in
               if extraTok then
                 (if CHR 0x0A \<in> set d10
                  then Inr (om1\<lparr>sem := sem1, fit := fit1\<rparr>, dropWhile (\<lambda>c. c \<noteq> CHR 0x0A) d10)
                  else Inl (UndefinedBehaviour ''no end of line inside the mapped file''))
               else Inr (om1\<lparr>sem := sem1, fit := fit1\<rparr>, d10))
           else Inr (om1\<lparr>sem := sem1\<rparr>, d9))
       else Inr (om1, d8))"

text \<open>
  The loop of \<^verbatim>\<open>readAngDataMemMap\<close>, which also stops when \<^verbatim>\<open>bytesRead\<close> reaches
  the size of the file.
\<close>

fun readAngDataMemMapLoop ::
  "nat \<Rightarrow> bool \<Rightarrow> bool \<Rightarrow> bool \<Rightarrow> nat \<Rightarrow> string \<Rightarrow> nat \<Rightarrow> Cursor \<Rightarrow> nat \<Rightarrow> OrientationMap
     \<Rightarrow> error + OrientationMap \<times> nat" where
  "readAngDataMemMapLoop 0 readSem readFit extraTok fileBytes data bytesRead c pointsRead om =
     Inr (om, pointsRead)"
| "readAngDataMemMapLoop (Suc n) readSem readFit extraTok fileBytes data bytesRead c pointsRead om =
     (if \<not> bytesRead < fileBytes then Inr (om, pointsRead)
      else bind_err (parseMapped readSem readFit extraTok (pointIndex c) data om) (\<lambda>r.
             readAngDataMemMapLoop n readSem readFit extraTok fileBytes (snd r)
               (bytesRead + (length data - length (snd r)))
               (nextPoint (nColsEven om) (nColsOdd om) c) (Suc pointsRead) (fst r)))"

text \<open>
  \<^verbatim>\<open>readAngDataMemMap\<close> on a file with the bytes \<open>file\<close>: the cursor starts
  \<open>offset\<close> bytes into the mapping and \<^verbatim>\<open>bytesRead\<close> at \<open>offset + 1\<close>. A failure
  of the operating system to map the file is not modelled.
\<close>

definition readAngDataMemMap ::
  "string \<Rightarrow> nat \<Rightarrow> nat \<Rightarrow> OrientationMap \<Rightarrow> error + OrientationMap \<times> nat" where
  "readAngDataMemMap file offset tokens om =
     readAngDataMemMapLoop (length (iq om)) (8 < tokens) (9 < tokens) (10 < tokens)
       (length file) (drop offset file) (offset + 1) (firstPoint (nColsEven om)) 0 om"

section \<open>Reading a file\<close>

text \<open>
  \<^verbatim>\<open>readAng\<close>: \<open>contents\<close> are the bytes of the file, \<open>None\<close> when it cannot be
  opened. \<^verbatim>\<open>UseMemMap\<close> is the constant \<^verbatim>\<open>true\<close>. The offset is what \<^verbatim>\<open>tellg\<close>
  returns, which is -1 on a failed stream: the cursor then starts in front of the
  mapping.
\<close>

definition readAng ::
  "string \<Rightarrow> string option \<Rightarrow> OrientationMap \<Rightarrow> error + OrientationMap \<times> nat" where
  "readAng fileName contents om =
     (case contents of
        None \<Rightarrow> Inl (FileNotFound fileName)
      | Some file \<Rightarrow>
          bind_err (readAngHeader file om) (\<lambda>h.
            let om1 = fst h; tokenCount = fst (snd h); rest = fst (snd (snd h));
                good = snd (snd (snd h)) in
            bind_err (allocate tokenCount om1) (\<lambda>om2.
              if good then readAngDataMemMap file (length file - length rest) tokenCount om2
              else Inl (UndefinedBehaviour ''data pointer in front of the mapped file''))))"

text \<open>
  \<^verbatim>\<open>read\<close> (lines 239 to 253). The \<^verbatim>\<open>default\<close> branch of the switch builds a
  \<^verbatim>\<open>std::runtime_error\<close> and drops it: the statement has no \<^verbatim>\<open>throw\<close>, so that no
  file type raises here and \<^verbatim>\<open>pointsRead\<close> stays 0 for every type but \<^verbatim>\<open>Ang\<close>.
\<close>

definition read :: "string \<Rightarrow> string option \<Rightarrow> OrientationMap \<Rightarrow> error + OrientationMap" where
  "read fileName contents om =
     bind_err (case getFileType fileName of
                 Ang \<Rightarrow> readAng fileName contents om
               | _ \<Rightarrow> Inr (om, 0))
       (\<lambda>r. let om' = fst r; pointsRead = snd r in
          if pointsRead < length (iq om')
          then Inl (TruncatedData pointsRead (length (iq om')))
          else Inr om')"

text \<open>The map the default constructor builds: no phases, empty vectors.\<close>

definition emptyMap :: OrientationMap where
  "emptyMap =
     \<lparr>pixPerUm = [], xStar = [], yStar = [], zStar = [], workingDistance = [], xStep = [],
      yStep = [], nColsOdd = 0, nColsEven = 0, nRows = 0, operatorName = [], sampleId = [],
      scanId = [], gridType = Unknown, phaseList = [], eu = [], x_um = [], y_um = [],
      iq = [], ci = [], sem = [], fit = [], phase = []\<rparr>"

section \<open>The row traversal, in the words of the specification\<close>




section \<open>Concrete files\<close>

text \<open>The bytes of a text file with the given lines.\<close>

definition unlines :: "string list \<Rightarrow> string" where
  "unlines ls = concat (map (\<lambda>l. l @ [CHR 0x0A]) ls)"

text \<open>
  The fourteen mandatory header lines for a grid of type \<open>g\<close> with \<open>colsOdd\<close> and
  \<open>colsEven\<close> columns and \<open>rows\<close> rows.
\<close>

definition scalarLines :: "string \<Rightarrow> string \<Rightarrow> string \<Rightarrow> string \<Rightarrow> string list" where
  "scalarLines g colsOdd colsEven rows =
     [''# TEM_PIXperUM 1'', ''# x-star 0'', ''# y-star 0'', ''# z-star 0'',
      ''# WorkingDistance 1'', ''# GRID: '' @ g, ''# XSTEP: 1'', ''# YSTEP: 1'',
      ''# NCOLS_ODD: '' @ colsOdd, ''# NCOLS_EVEN: '' @ colsEven, ''# NROWS: '' @ rows,
      ''# OPERATOR: a'', ''# SAMPLEID: b'', ''# SCANID: c'']"

text \<open>A square grid of two rows of two points, with only three data lines.\<close>

definition threePoints :: string where
  "threePoints =
     unlines (scalarLines ''SqrGrid'' ''2'' ''2'' ''2''
       @ [''0 0 0 0 0 1 1 1'', ''0 0 0 1 0 1 1 1'', ''0 0 0 0 1 1 1 1''])"

text \<open>
  A hexagonal grid of one row: the odd rows have two points, the even rows one, and
  the file has the two data lines of its only row.
\<close>

definition hexRow :: string where
  "hexRow =
     unlines (scalarLines ''HexGrid'' ''2'' ''1'' ''1''
       @ [''0 0 0 0 0 1 1 1'', ''0 0 0 1 0 1 1 1''])"

text \<open>
  The first lines of a phase, up to its lattice constants, and what completes a phase:
  six rows of elastic constants and the categories.
\<close>

definition nickelLines :: "string list" where
  "nickelLines =
     [''# Phase 1'', ''# MaterialName Nickel'', ''# Formula Ni'', ''# Info none'',
      ''# Symmetry 43'', ''# LatticeConstants 3.5 3.5 3.5 90 90 90'']"

definition elasticLines :: "string list" where
  "elasticLines = replicate 6 ''# ElasticConstants 0 0 0 0 0 0'' @ [''# Categories0 0 0 0 0 '']"

text \<open>
  A file whose only phase has one hkl family, as it declares, and neither elastic
  constants nor categories.
\<close>

definition noElasticFile :: string where
  "noElasticFile =
     unlines (scalarLines ''SqrGrid'' ''1'' ''1'' ''1'' @ nickelLines
       @ [''# NumberFamilies 1'', ''# hklFamilies 1 1 1 1 0 1'', ''0 0 0 0 0 1 1 1''])"

text \<open>
  The first \<open>k\<close> lines of the phase above, followed by a data line: a header that
  ends inside its only phase.
\<close>

definition phasePrefix :: "nat \<Rightarrow> string" where
  "phasePrefix k = unlines (take k nickelLines @ [''0 0 0 0 0 1 1 1''])"

text \<open>
  A file whose only phase declares two hkl families and has one; it is complete
  otherwise.
\<close>

definition fewFamiliesFile :: string where
  "fewFamiliesFile =
     unlines (scalarLines ''SqrGrid'' ''1'' ''1'' ''1''
       @ nickelLines @ [''# NumberFamilies 2'', ''# hklFamilies 1 1 1 1 0 1''] @ elasticLines
       @ [''0 0 0 0 0 1 1 1''])"

section \<open>Evaluation\<close>

text \<open>
  Rules that let the simplifier run the definitions on concrete input: the steps of a
  computation are taken in order, and what follows a step is not touched before the
  step has a value.
\<close>

declare readAngHeaderLoop.simps [simp del] countTokens.simps [simp del]

lemma bind_err_Inl [simp]: "bind_err (Inl e) f = Inl e"
  by (simp add: bind_err_def)

lemma bind_err_Inr [simp]: "bind_err (Inr v) f = f v"
  by (simp add: bind_err_def)

lemma bind_err_cong [cong]: "r = r' \<Longrightarrow> bind_err r f = bind_err r' f"
  by simp

lemma replicate_numeral: "replicate (numeral k) x = x # replicate (pred_numeral k) x"
  by (simp add: numeral_eq_Suc)

lemma unat_minus_1: "unat (- 1 :: size_t) = 18446744073709551615"
  by (simp add: unsigned_minus_1_eq_mask mask_eq_exp_minus_1)

lemma readAngDataLoop_numeral:
  "readAngDataLoop (numeral k) readSem readFit s c pointsRead om =
     (if \<not> getline_ok s then Inr (om, pointsRead)
      else bind_err (parseLine readSem readFit (pointIndex c) (getline_buf s) om) (\<lambda>om'.
             readAngDataLoop (pred_numeral k) readSem readFit (getline_rest s)
               (nextPoint (nColsEven om) (nColsOdd om) c) (Suc pointsRead) om'))"
  by (simp add: numeral_eq_Suc)

lemma readAngDataMemMapLoop_numeral:
  "readAngDataMemMapLoop (numeral k) readSem readFit extraTok fileBytes data bytesRead c pointsRead om =
     (if \<not> bytesRead < fileBytes then Inr (om, pointsRead)
      else bind_err (parseMapped readSem readFit extraTok (pointIndex c) data om) (\<lambda>r.
             readAngDataMemMapLoop (pred_numeral k) readSem readFit extraTok fileBytes (snd r)
               (bytesRead + (length data - length (snd r)))
               (nextPoint (nColsEven om) (nColsOdd om) c) (Suc pointsRead) (fst r)))"
  by (simp add: numeral_eq_Suc)

lemmas char_defs = isspace_def isdigit_def next_token_def after_token_def c_str_def
  getline_buf_def getline_rest_def getline_ok_def skip_sign_def is_minus_def digits_val_def

lemmas eval_defs = parseHeaderLine_def char_defs extract_size_t_def strtoul_def strtof_def
  extract_text_def extract_GridType_def readAngHeader_def checkFinalPhase_def
  checkHeaderValues_def checkPreviousPhase_def initialVars_def emptyMap_def
  readAng_def read_def allocate_def totalPoints_def resize_def max_size_def readAngDataMemMap_def
  parseMapped_def parseMandatory_def storeAt_def firstPoint_def nextPoint_def pointIndex_def
  getFileType_def tolower_def updBack_def blankPhase_def readAngData_def parseLine_def
  replicate_numeral unat_minus_1 readAngDataLoop_numeral readAngDataMemMapLoop_numeral
  readAngHeaderLoop.simps countTokens.simps unlines_def scalarLines_def Let_def

section \<open>Allocation\<close>

lemma bind_err_InrE:
  assumes "bind_err r f = Inr y"
  obtains v where "r = Inr v" and "f v = Inr y"
  using assms by (cases r) simp_all

lemma unat_max: "unat (max (a::size_t) b) = max (unat a) (unat b)"
  by (simp add: max_def word_le_nat_alt)

lemma resize_length: "resize elemBytes n xs = Inr ys \<Longrightarrow> length ys = unat n"
  by (auto simp: resize_def split: if_splits)

lemma resize_bound: "resize elemBytes n xs = Inr ys \<Longrightarrow> unat n \<le> max_size elemBytes"
  by (auto simp: resize_def split: if_splits)

lemma odd_word: "((r::size_t) mod 2 = 1) = odd (unat r)"
  by (simp add: word_eq_iff_unsigned[where ?'a=nat] unat_mod odd_iff_mod_2_eq_one)

lemma unat_Square: "unat (max a b * (r::size_t)) = (max (unat a) (unat b) * unat r) mod 2 ^ 64"
  by (simp add: unat_word_ariths unat_max)

lemma unat_Hexagonal:
  "unat ((r div 2) * (a + b) + (if r mod 2 = 1 then a else 0) :: size_t) =
     ((unat r div 2) * (unat a + unat b) + (if odd (unat r) then unat a else 0)) mod 2 ^ 64"
  by (simp add: unat_word_ariths unat_div mod_simps odd_word)

lemma unat_triple: "unat n \<le> max_size 4 \<Longrightarrow> unat (3 * (n::size_t)) = 3 * unat n"
  by (simp add: unat_word_ariths max_size_def)

lemma totalPoints_Square_wraps:
  "totalPoints Square 4294967296 4294967296 4294967296 = Inr 0"
  by (simp add: totalPoints_def)

lemma totalPoints_Hexagonal_wraps:
  "totalPoints Hexagonal 9223372036854775808 9223372036854775808 2 = Inr 0"
  by (simp add: totalPoints_def)

text \<open>What a successful \<^verbatim>\<open>allocate\<close> leaves: every resize has succeeded.\<close>

lemma allocate_lengths:
  assumes "totalPoints (gridType om) (nColsOdd om) (nColsEven om) (nRows om) = Inr n"
    and "allocate tokenCount om = Inr om'"
  shows "length (iq om') = unat n \<and> length (x_um om') = unat n \<and> length (y_um om') = unat n
     \<and> length (ci om') = unat n \<and> length (phase om') = unat n \<and> length (eu om') = 3 * unat n"
proof -
  from assms(2) obtain eu1 x1 y1 iq1 ci1 phase1 sem1 fit1 where
    r: "resize 4 (3 * n) (eu om) = Inr eu1" "resize 4 n (x_um om) = Inr x1"
       "resize 4 n (y_um om) = Inr y1" "resize 4 n (iq om) = Inr iq1"
       "resize 4 n (ci om) = Inr ci1" "resize 8 n (phase om) = Inr phase1"
    and om': "om' = om\<lparr>eu := eu1, x_um := x1, y_um := y1, iq := iq1, ci := ci1,
       phase := phase1, sem := sem1, fit := fit1\<rparr>"
    unfolding allocate_def assms(1) by (auto elim!: bind_err_InrE)
  have "unat (3 * n) = 3 * unat n"
    using resize_bound [OF r(2)] by (rule unat_triple)
  then show ?thesis
    using r om' by (simp add: resize_length)
qed

text \<open>
  The model of \<^verbatim>\<open>resize\<close> at work: a square grid of one row of 6148914691236517206
  points makes \<^verbatim>\<open>eu.resize(3 * totalPoints)\<close> wrap to two elements, and the next
  \<^verbatim>\<open>resize\<close> raises.
\<close>

lemma allocate_LengthError:
  "allocate 8 (emptyMap\<lparr>gridType := Square, nColsOdd := 6148914691236517206, nColsEven := 1,
        nRows := 1\<rparr>) = Inl LengthError"
  by (simp add: allocate_def totalPoints_def resize_def max_size_def emptyMap_def)

text \<open>
  C7, as the code has it. On a square grid the number of points \<^verbatim>\<open>allocate\<close>
  computes is the product of the larger column count and the row count, reduced modulo
  \<open>2 ^ 64\<close> because the product is taken in \<^verbatim>\<open>size_t\<close>. Whenever \<^verbatim>\<open>allocate\<close>
  returns, the vectors \<^verbatim>\<open>x\<close>, \<^verbatim>\<open>y\<close>, \<^verbatim>\<open>iq\<close>, \<^verbatim>\<open>ci\<close> and \<^verbatim>\<open>phase\<close> have that
  length and \<^verbatim>\<open>eu\<close> has three times that length.
\<close>

theorem allocate_Square_sizes:
  assumes "gridType om = Square"
  shows "\<exists>n. totalPoints (gridType om) (nColsOdd om) (nColsEven om) (nRows om) = Inr n
     \<and> unat n = (max (unat (nColsOdd om)) (unat (nColsEven om)) * unat (nRows om)) mod 2 ^ 64
     \<and> (\<forall>om'. allocate tokenCount om = Inr om' \<longrightarrow>
           length (x_um om') = unat n \<and> length (y_um om') = unat n
         \<and> length (iq om') = unat n \<and> length (ci om') = unat n
         \<and> length (phase om') = unat n \<and> length (eu om') = 3 * unat n)"
proof -
  have tp: "totalPoints (gridType om) (nColsOdd om) (nColsEven om) (nRows om)
      = Inr (max (nColsOdd om) (nColsEven om) * nRows om)"
    using assms by (simp add: totalPoints_def)
  show ?thesis
    using allocate_lengths [OF tp] unat_Square tp by blast
qed

theorem allocate_Square_sizes_witness:
  "\<exists>om'. allocate 8 (emptyMap\<lparr>gridType := Square, nColsOdd := 2, nColsEven := 2, nRows := 2\<rparr>)
       = Inr om'
     \<and> length (iq om') = 4 \<and> length (x_um om') = 4 \<and> length (eu om') = 12
     \<and> sem om' = [] \<and> fit om' = []"
proof -
  obtain om where om: "om = emptyMap\<lparr>gridType := Square, nColsOdd := 2, nColsEven := 2, nRows := 2\<rparr>"
    by simp
  have g: "gridType om = Square"
    by (simp add: om)
  obtain om' where al: "allocate 8 om = Inr om'" and opt: "sem om' = []" "fit om' = []"
    by (simp add: om allocate_def totalPoints_def resize_def max_size_def emptyMap_def)
  from allocate_Square_sizes [OF g, of 8] obtain n where
    all: "totalPoints (gridType om) (nColsOdd om) (nColsEven om) (nRows om) = Inr n
     \<and> unat n = (max (unat (nColsOdd om)) (unat (nColsEven om)) * unat (nRows om)) mod 2 ^ 64
     \<and> (\<forall>om'. allocate 8 om = Inr om' \<longrightarrow>
           length (x_um om') = unat n \<and> length (y_um om') = unat n
         \<and> length (iq om') = unat n \<and> length (ci om') = unat n
         \<and> length (phase om') = unat n \<and> length (eu om') = 3 * unat n)" ..
  from all have
    un: "unat n = (max (unat (nColsOdd om)) (unat (nColsEven om)) * unat (nRows om)) mod 2 ^ 64"
    and sizes: "\<forall>om'. allocate 8 om = Inr om' \<longrightarrow>
           length (x_um om') = unat n \<and> length (y_um om') = unat n
         \<and> length (iq om') = unat n \<and> length (ci om') = unat n
         \<and> length (phase om') = unat n \<and> length (eu om') = 3 * unat n"
    by (rule conjunct1 [OF conjunct2], rule conjunct2 [OF conjunct2])
  from sizes al have "length (iq om') = unat n" "length (x_um om') = unat n"
    "length (eu om') = 3 * unat n"
    by simp_all
  with un have "length (iq om') = 4" "length (x_um om') = 4" "length (eu om') = 12"
    by (simp_all add: om)
  with al opt show ?thesis
    unfolding om by blast
qed

text \<open>
  C7 fails as stated: with \<open>2 ^ 32\<close> columns in odd and even rows and \<open>2 ^ 32\<close> rows
  the product wraps to 0, so that \<^verbatim>\<open>allocate\<close> leaves every vector of a fresh map
  empty, while \<open>max(odd, even) \<times> rows\<close> is \<open>2 ^ 64\<close>.
\<close>

theorem allocate_Square_counterexample:
  "allocate 8 (emptyMap\<lparr>gridType := Square, nColsOdd := 4294967296, nColsEven := 4294967296,
        nRows := 4294967296\<rparr>)
     = Inr (emptyMap\<lparr>gridType := Square, nColsOdd := 4294967296, nColsEven := 4294967296,
        nRows := 4294967296\<rparr>)
   \<and> length (iq emptyMap) \<noteq> max 4294967296 4294967296 * 4294967296"
  by (simp add: allocate_def totalPoints_Square_wraps resize_def max_size_def emptyMap_def)

text \<open>
  C8, as the code has it. On a hexagonal grid the number of points \<^verbatim>\<open>allocate\<close>
  computes is \<open>floor(rows / 2) \<times> (odd + even)\<close>, plus \<open>odd\<close> when the row count is
  odd, reduced modulo \<open>2 ^ 64\<close>; whenever \<^verbatim>\<open>allocate\<close> returns, that is the length of
  \<^verbatim>\<open>iq\<close>.
\<close>

theorem allocate_Hexagonal_total:
  assumes "gridType om = Hexagonal"
  shows "\<exists>n. totalPoints (gridType om) (nColsOdd om) (nColsEven om) (nRows om) = Inr n
     \<and> unat n =
         ((unat (nRows om) div 2) * (unat (nColsOdd om) + unat (nColsEven om))
            + (if odd (unat (nRows om)) then unat (nColsOdd om) else 0)) mod 2 ^ 64
     \<and> (\<forall>om'. allocate tokenCount om = Inr om' \<longrightarrow> length (iq om') = unat n)"
proof -
  have tp: "totalPoints (gridType om) (nColsOdd om) (nColsEven om) (nRows om)
      = Inr ((nRows om div 2) * (nColsOdd om + nColsEven om)
              + (if nRows om mod 2 = 1 then nColsOdd om else 0))"
    using assms by (simp add: totalPoints_def)
  show ?thesis
    using allocate_lengths [OF tp] unat_Hexagonal tp by blast
qed

theorem allocate_Hexagonal_total_witness:
  "\<exists>om'. allocate 8 (emptyMap\<lparr>gridType := Hexagonal, nColsOdd := 3, nColsEven := 2, nRows := 3\<rparr>)
       = Inr om'
     \<and> length (iq om') = 8"
proof -
  obtain om where om: "om = emptyMap\<lparr>gridType := Hexagonal, nColsOdd := 3, nColsEven := 2, nRows := 3\<rparr>"
    by simp
  have g: "gridType om = Hexagonal"
    by (simp add: om)
  obtain om' where al: "allocate 8 om = Inr om'"
    by (simp add: om allocate_def totalPoints_def resize_def max_size_def emptyMap_def)
  from allocate_Hexagonal_total [OF g, of 8] obtain n where
    all: "totalPoints (gridType om) (nColsOdd om) (nColsEven om) (nRows om) = Inr n
     \<and> unat n =
         ((unat (nRows om) div 2) * (unat (nColsOdd om) + unat (nColsEven om))
            + (if odd (unat (nRows om)) then unat (nColsOdd om) else 0)) mod 2 ^ 64
     \<and> (\<forall>om'. allocate 8 om = Inr om' \<longrightarrow> length (iq om') = unat n)" ..
  from all have
    un: "unat n = ((unat (nRows om) div 2) * (unat (nColsOdd om) + unat (nColsEven om))
            + (if odd (unat (nRows om)) then unat (nColsOdd om) else 0)) mod 2 ^ 64"
    and sizes: "\<forall>om'. allocate 8 om = Inr om' \<longrightarrow> length (iq om') = unat n"
    by (rule conjunct1 [OF conjunct2], rule conjunct2 [OF conjunct2])
  from sizes al have "length (iq om') = unat n"
    by simp
  with un have "length (iq om') = 8"
    by (simp add: om)
  with al show ?thesis
    unfolding om by blast
qed

text \<open>
  C8 fails as stated: with \<open>2 ^ 63\<close> columns in odd and even rows and 2 rows the sum
  of the column counts wraps to 0 and no point is allocated, while
  \<open>floor(2 / 2) \<times> (odd + even)\<close> is \<open>2 ^ 64\<close>.
\<close>

theorem allocate_Hexagonal_counterexample:
  "allocate 8 (emptyMap\<lparr>gridType := Hexagonal, nColsOdd := 9223372036854775808,
        nColsEven := 9223372036854775808, nRows := 2\<rparr>)
     = Inr (emptyMap\<lparr>gridType := Hexagonal, nColsOdd := 9223372036854775808,
        nColsEven := 9223372036854775808, nRows := 2\<rparr>)
   \<and> length (iq emptyMap) \<noteq> (2 div 2) * (9223372036854775808 + 9223372036854775808)"
  by (simp add: allocate_def totalPoints_Hexagonal_wraps resize_def max_size_def emptyMap_def)

section \<open>Reading a file\<close>

text \<open>
  C1 does not hold of the code: \<^verbatim>\<open>read\<close> of a fresh map on \<^verbatim>\<open>scan.hdf\<close>, whatever
  the file holds and whether or not it exists, returns normally and leaves the map as
  it was. Line 244 builds the exception for an unsupported file type and never throws
  it.
\<close>

theorem read_hdf_returns: "read ''scan.hdf'' contents emptyMap = Inr emptyMap"
  by (simp add: eval_defs cong: let_weak_cong)

text \<open>The decoders assign to elements of the vectors and keep their lengths.\<close>

lemma storeAt_length: "storeAt xs i v = Inr ys \<Longrightarrow> length ys = length xs"
  by (auto simp: storeAt_def split: if_splits)

lemma parseMandatory_iq: "parseMandatory i d om = Inr r \<Longrightarrow> length (iq (fst r)) = length (iq om)"
  apply (simp only: parseMandatory_def Let_def)
  apply (elim bind_err_InrE)
  apply (auto dest: storeAt_length)
  done

lemma parseMapped_iq:
  "parseMapped readSem readFit extraTok i d om = Inr r \<Longrightarrow> length (iq (fst r)) = length (iq om)"
  apply (simp only: parseMapped_def Let_def)
  apply (erule bind_err_InrE)
  apply (frule parseMandatory_iq)
  apply (auto split: if_splits elim!: bind_err_InrE)
  done

lemma readAngDataMemMapLoop_iq:
  "readAngDataMemMapLoop n readSem readFit extraTok fileBytes d bytesRead c pointsRead om = Inr r
     \<Longrightarrow> length (iq (fst r)) = length (iq om)"
proof (induction n arbitrary: d bytesRead c pointsRead om)
  case 0
  then show ?case by auto
next
  case (Suc n)
  show ?case
  proof (cases "bytesRead < fileBytes")
    case False
    with Suc.prems show ?thesis by auto
  next
    case True
    with Suc.prems obtain p where
      p: "parseMapped readSem readFit extraTok (pointIndex c) d om = Inr p"
      and rest: "readAngDataMemMapLoop n readSem readFit extraTok fileBytes (snd p)
          (bytesRead + (length d - length (snd p)))
          (nextPoint (nColsEven om) (nColsOdd om) c) (Suc pointsRead) (fst p) = Inr r"
      by (auto elim: bind_err_InrE)
    from Suc.IH [OF rest] parseMapped_iq [OF p] show ?thesis by simp
  qed
qed

lemma allocate_iq:
  "totalPoints (gridType om) (nColsOdd om) (nColsEven om) (nRows om) = Inr n
     \<Longrightarrow> allocate tokenCount om = Inr om' \<Longrightarrow> length (iq om') = unat n"
  by (simp add: allocate_lengths)

text \<open>
  C5. Let the name end in \<^verbatim>\<open>.ang\<close>, let the header parse, let allocation compute
  \<open>n\<close> points, and let the decoder return the count \<open>k\<close>. Then \<^verbatim>\<open>read\<close> fails
  with "file ended after reading k of n data points" when \<open>k < n\<close>, and succeeds
  otherwise.
\<close>

theorem read_checks_point_count:
  assumes "getFileType fileName = Ang"
    and "readAngHeader file om = Inr (om1, tokenCount, rest, True)"
    and "totalPoints (gridType om1) (nColsOdd om1) (nColsEven om1) (nRows om1) = Inr n"
    and "allocate tokenCount om1 = Inr om2"
    and "readAngDataMemMap file (length file - length rest) tokenCount om2 = Inr (om3, k)"
  shows "read fileName (Some file) om =
           (if k < unat n then Inl (TruncatedData k (unat n)) else Inr om3)"
proof -
  from assms(5) have "length (iq (fst (om3, k))) = length (iq om2)"
    unfolding readAngDataMemMap_def by (rule readAngDataMemMapLoop_iq)
  then have len: "length (iq om3) = unat n"
    using allocate_iq [OF assms(3) assms(4)] by simp
  have "readAng fileName (Some file) om = Inr (om3, k)"
    by (simp add: readAng_def assms(2) assms(4) assms(5))
  then show ?thesis
    by (simp add: read_def assms(1) len)
qed

theorem read_checks_point_count_witness:
  "read ''scan.ang'' (Some threePoints) emptyMap = Inl (TruncatedData 3 4)"
proof -
  have ft: "getFileType ''scan.ang'' = Ang"
    by (simp add: eval_defs)
  obtain om1 where om1: "om1 = emptyMap\<lparr>pixPerUm := ''1'', xStar := ''0'', yStar := ''0'',
      zStar := ''0'', workingDistance := ''1'', gridType := Square, xStep := ''1'',
      yStep := ''1'', nColsOdd := 2, nColsEven := 2, nRows := 2, operatorName := ''a'',
      sampleId := ''b'', scanId := ''c''\<rparr>"
    by simp
  obtain rest where rest: "rest = unlines [''0 0 0 0 0 1 1 1'', ''0 0 0 1 0 1 1 1'', ''0 0 0 0 1 1 1 1'']"
    by simp
  have hd: "readAngHeader threePoints emptyMap = Inr (om1, 8, rest, True)"
    unfolding om1 rest by (simp add: threePoints_def eval_defs cong: let_weak_cong)
  have tp: "totalPoints (gridType om1) (nColsOdd om1) (nColsEven om1) (nRows om1) = Inr 4"
    unfolding om1 by (simp add: eval_defs)
  obtain om2 where om2: "om2 = om1\<lparr>eu := replicate 12 0, x_um := replicate 4 0,
      y_um := replicate 4 0, iq := replicate 4 0, ci := replicate 4 0, phase := replicate 4 0\<rparr>"
    by simp
  have al: "allocate 8 om1 = Inr om2"
    unfolding om1 om2 by (simp add: eval_defs)
  obtain om3 where om3: "om3 = om2\<lparr>x_um := [1, 0, 0, 0], y_um := [0, 0, 0, 1],
      iq := [1, 1, 0, 1], ci := [1, 1, 0, 1], phase := [1, 1, 0, 1]\<rparr>"
    by simp
  have dec: "readAngDataMemMap threePoints (length threePoints - length rest) 8 om2 = Inr (om3, 3)"
    unfolding om1 om2 om3 rest by (simp add: threePoints_def eval_defs cong: let_weak_cong)
  show ?thesis
    using read_checks_point_count [OF ft hd tp al dec] by simp
qed

text \<open>
  C10 does not hold of the code. For the one-row hexagonal file \<^verbatim>\<open>allocate\<close> sizes the
  vectors for the two points of an odd row, while the decoder takes the first row for an
  even row of one point: the second data line is assigned to index 2 of vectors of
  length 2 (and to index 6 of \<^verbatim>\<open>eu\<close>, of length 6).
\<close>

theorem read_hexRow_outside:
  "read ''scan.ang'' (Some hexRow) emptyMap = Inl (UndefinedBehaviour ''index outside the vector'')"
  by (simp add: hexRow_def eval_defs cong: let_weak_cong)


section \<open>The checks of the header\<close>

text \<open>
  C3 fails as stated: the only phase of \<open>noElasticFile\<close> has no elastic constants and
  no categories, and the header parses.
\<close>

theorem header_end_counterexample: "\<not> isl (readAngHeader noElasticFile emptyMap)"
  by (simp add: noElasticFile_def nickelLines_def eval_defs cong: let_weak_cong)

lemma checkFinalPhase_eq:
  "checkFinalPhase om hv
     = checkPreviousPhase om (hv\<lparr>phaseElasticCount := 6, readPhaseCategories := True\<rparr>)"
  by (auto simp: checkFinalPhase_def checkPreviousPhase_def Let_def)

lemma checkFinalPhase_elastic:
  "checkFinalPhase om (hv\<lparr>phaseElasticCount := c, readPhaseCategories := b\<rparr>)
     = checkFinalPhase om hv"
  by (auto simp: checkFinalPhase_def Let_def)

lemma checkFinalPhase_error:
  "checkFinalPhase om hv = Some e \<Longrightarrow>
     e \<noteq> MalformedPhaseRecord ''elastic constants'' n \<and> e \<noteq> MalformedPhaseRecord ''categories'' n"
  by (auto simp: checkFinalPhase_def Let_def split: if_splits)

lemma checkHeaderValues_error:
  "checkHeaderValues hv = Some e \<Longrightarrow> e \<noteq> MalformedPhaseRecord w n"
  by (auto simp: checkHeaderValues_def split: if_splits)

lemma readAngHeader_after_loop:
  assumes "readAngHeaderLoop s (om, initialVars) = Inr ((om', hv), rest, good)"
  shows "readAngHeader s om =
     (case checkFinalPhase om' hv of
        Some e \<Rightarrow> Inl e
      | None \<Rightarrow>
          (case checkHeaderValues hv of
             Some e \<Rightarrow> Inl e
           | None \<Rightarrow>
               (if countTokens (c_str (if good then getline_buf rest else [])) < 8
                then Inl (TooFewColumns (countTokens (c_str (if good then getline_buf rest else []))))
                else Inr (om', countTokens (c_str (if good then getline_buf rest else [])), rest,
                          good \<and> getline_ok rest))))"
  by (auto simp: readAngHeader_def assms Let_def split: option.splits)

text \<open>
  C3, as the code has it. After the header loop the last phase is checked for its
  material name, formula, info, symmetry, lattice constants and \<^verbatim>\<open>NumberFamilies\<close>
  key, in this order, and the first one missing is the error of \<^verbatim>\<open>readAngHeader\<close>,
  which names it and the number of phases. These are the checks made at a \<^verbatim>\<open>Phase\<close>
  key with the two for the elastic constants and the categories left out: the outcome
  does not depend on how many rows of elastic constants were read nor on whether the
  categories were, and \<^verbatim>\<open>readAngHeader\<close> never reports either as missing.
\<close>

theorem header_end_checks:
  assumes "readAngHeaderLoop s (om, initialVars) = Inr ((om', hv), rest, good)"
  shows "(\<not> readPhaseMaterial hv \<longrightarrow>
            readAngHeader s om = Inl (MalformedPhaseRecord ''material name'' (length (phaseList om'))))
     \<and> (readPhaseMaterial hv \<and> \<not> readPhaseFormula hv \<longrightarrow>
            readAngHeader s om = Inl (MalformedPhaseRecord ''formula'' (length (phaseList om'))))
     \<and> (readPhaseMaterial hv \<and> readPhaseFormula hv \<and> \<not> readPhaseInfo hv \<longrightarrow>
            readAngHeader s om = Inl (MalformedPhaseRecord ''info'' (length (phaseList om'))))
     \<and> (readPhaseMaterial hv \<and> readPhaseFormula hv \<and> readPhaseInfo hv
          \<and> \<not> readPhaseSymmetry hv \<longrightarrow>
            readAngHeader s om = Inl (MalformedPhaseRecord ''symmetry'' (length (phaseList om'))))
     \<and> (readPhaseMaterial hv \<and> readPhaseFormula hv \<and> readPhaseInfo hv
          \<and> readPhaseSymmetry hv \<and> \<not> readPhaseLattice hv \<longrightarrow>
            readAngHeader s om
              = Inl (MalformedPhaseRecord ''lattice constants'' (length (phaseList om'))))
     \<and> (readPhaseMaterial hv \<and> readPhaseFormula hv \<and> readPhaseInfo hv
          \<and> readPhaseSymmetry hv \<and> readPhaseLattice hv \<and> \<not> readPhaseHkl hv \<longrightarrow>
            readAngHeader s om = Inl (MalformedPhaseRecord ''hkl families'' (length (phaseList om'))))
     \<and> checkFinalPhase om' hv
          = checkPreviousPhase om' (hv\<lparr>phaseElasticCount := 6, readPhaseCategories := True\<rparr>)
     \<and> (\<forall>c b. checkFinalPhase om' (hv\<lparr>phaseElasticCount := c, readPhaseCategories := b\<rparr>)
                = checkFinalPhase om' hv)
     \<and> (\<forall>n. readAngHeader s om \<noteq> Inl (MalformedPhaseRecord ''elastic constants'' n)
              \<and> readAngHeader s om \<noteq> Inl (MalformedPhaseRecord ''categories'' n))"
proof -
  note r = readAngHeader_after_loop [OF assms]
  have material: "\<not> readPhaseMaterial hv \<longrightarrow>
      readAngHeader s om = Inl (MalformedPhaseRecord ''material name'' (length (phaseList om')))"
    by (simp add: r checkFinalPhase_def Let_def)
  have formula: "readPhaseMaterial hv \<and> \<not> readPhaseFormula hv \<longrightarrow>
      readAngHeader s om = Inl (MalformedPhaseRecord ''formula'' (length (phaseList om')))"
    by (simp add: r checkFinalPhase_def Let_def)
  have info: "readPhaseMaterial hv \<and> readPhaseFormula hv \<and> \<not> readPhaseInfo hv \<longrightarrow>
      readAngHeader s om = Inl (MalformedPhaseRecord ''info'' (length (phaseList om')))"
    by (simp add: r checkFinalPhase_def Let_def)
  have symmetry: "readPhaseMaterial hv \<and> readPhaseFormula hv \<and> readPhaseInfo hv
       \<and> \<not> readPhaseSymmetry hv \<longrightarrow>
      readAngHeader s om = Inl (MalformedPhaseRecord ''symmetry'' (length (phaseList om')))"
    by (simp add: r checkFinalPhase_def Let_def)
  have lattice: "readPhaseMaterial hv \<and> readPhaseFormula hv \<and> readPhaseInfo hv
       \<and> readPhaseSymmetry hv \<and> \<not> readPhaseLattice hv \<longrightarrow>
      readAngHeader s om
        = Inl (MalformedPhaseRecord ''lattice constants'' (length (phaseList om')))"
    by (simp add: r checkFinalPhase_def Let_def)
  have hkl: "readPhaseMaterial hv \<and> readPhaseFormula hv \<and> readPhaseInfo hv
       \<and> readPhaseSymmetry hv \<and> readPhaseLattice hv \<and> \<not> readPhaseHkl hv \<longrightarrow>
      readAngHeader s om = Inl (MalformedPhaseRecord ''hkl families'' (length (phaseList om')))"
    by (simp add: r checkFinalPhase_def Let_def)
  have never: "\<forall>n. readAngHeader s om \<noteq> Inl (MalformedPhaseRecord ''elastic constants'' n)
       \<and> readAngHeader s om \<noteq> Inl (MalformedPhaseRecord ''categories'' n)"
    unfolding r
    by (auto split: option.splits dest: checkFinalPhase_error checkHeaderValues_error)
  from material formula info symmetry lattice hkl never show ?thesis
    using checkFinalPhase_eq [of om' hv] checkFinalPhase_elastic [of om' _ _ hv] by blast
qed

lemma phasePrefix_loop:
  "\<exists>om' hv rest.
      readAngHeaderLoop (phasePrefix 1) (emptyMap, initialVars) = Inr ((om', hv), rest, True)
    \<and> \<not> readPhaseMaterial hv \<and> length (phaseList om') = 1"
  "\<exists>om' hv rest.
      readAngHeaderLoop (phasePrefix 2) (emptyMap, initialVars) = Inr ((om', hv), rest, True)
    \<and> readPhaseMaterial hv \<and> \<not> readPhaseFormula hv \<and> length (phaseList om') = 1"
  "\<exists>om' hv rest.
      readAngHeaderLoop (phasePrefix 3) (emptyMap, initialVars) = Inr ((om', hv), rest, True)
    \<and> readPhaseMaterial hv \<and> readPhaseFormula hv \<and> \<not> readPhaseInfo hv
    \<and> length (phaseList om') = 1"
  "\<exists>om' hv rest.
      readAngHeaderLoop (phasePrefix 4) (emptyMap, initialVars) = Inr ((om', hv), rest, True)
    \<and> readPhaseMaterial hv \<and> readPhaseFormula hv \<and> readPhaseInfo hv
    \<and> \<not> readPhaseSymmetry hv \<and> length (phaseList om') = 1"
  "\<exists>om' hv rest.
      readAngHeaderLoop (phasePrefix 5) (emptyMap, initialVars) = Inr ((om', hv), rest, True)
    \<and> readPhaseMaterial hv \<and> readPhaseFormula hv \<and> readPhaseInfo hv
    \<and> readPhaseSymmetry hv \<and> \<not> readPhaseLattice hv \<and> length (phaseList om') = 1"
  "\<exists>om' hv rest.
      readAngHeaderLoop (phasePrefix 6) (emptyMap, initialVars) = Inr ((om', hv), rest, True)
    \<and> readPhaseMaterial hv \<and> readPhaseFormula hv \<and> readPhaseInfo hv
    \<and> readPhaseSymmetry hv \<and> readPhaseLattice hv \<and> \<not> readPhaseHkl hv
    \<and> length (phaseList om') = 1"
  by (simp_all add: phasePrefix_def nickelLines_def eval_defs cong: let_weak_cong)

theorem header_end_checks_witness:
  "readAngHeader (phasePrefix 1) emptyMap = Inl (MalformedPhaseRecord ''material name'' 1)
   \<and> readAngHeader (phasePrefix 2) emptyMap = Inl (MalformedPhaseRecord ''formula'' 1)
   \<and> readAngHeader (phasePrefix 3) emptyMap = Inl (MalformedPhaseRecord ''info'' 1)
   \<and> readAngHeader (phasePrefix 4) emptyMap = Inl (MalformedPhaseRecord ''symmetry'' 1)
   \<and> readAngHeader (phasePrefix 5) emptyMap = Inl (MalformedPhaseRecord ''lattice constants'' 1)
   \<and> readAngHeader (phasePrefix 6) emptyMap = Inl (MalformedPhaseRecord ''hkl families'' 1)"
proof -
  have "readAngHeader (phasePrefix 1) emptyMap = Inl (MalformedPhaseRecord ''material name'' 1)"
    using phasePrefix_loop(1) header_end_checks by metis
  moreover
  have "readAngHeader (phasePrefix 2) emptyMap = Inl (MalformedPhaseRecord ''formula'' 1)"
    using phasePrefix_loop(2) header_end_checks by metis
  moreover
  have "readAngHeader (phasePrefix 3) emptyMap = Inl (MalformedPhaseRecord ''info'' 1)"
    using phasePrefix_loop(3) header_end_checks by metis
  moreover
  have "readAngHeader (phasePrefix 4) emptyMap = Inl (MalformedPhaseRecord ''symmetry'' 1)"
    using phasePrefix_loop(4) header_end_checks by metis
  moreover
  have "readAngHeader (phasePrefix 5) emptyMap = Inl (MalformedPhaseRecord ''lattice constants'' 1)"
    using phasePrefix_loop(5) header_end_checks by metis
  moreover
  have "readAngHeader (phasePrefix 6) emptyMap = Inl (MalformedPhaseRecord ''hkl families'' 1)"
    using phasePrefix_loop(6) header_end_checks by metis
  ultimately show ?thesis
    by simp
qed

text \<open>
  C4 does not hold of the code. The phase of \<open>fewFamiliesFile\<close> has fewer hkl
  families than it declares, and the header parses: the test before "ang missing some
  hkl families" is \<^verbatim>\<open>targetFamilies < hklFam.size()\<close>, which is true only when a phase
  has more families than it declares.
\<close>

theorem header_few_families_parses: "\<not> isl (readAngHeader fewFamiliesFile emptyMap)"
  by (simp add: fewFamiliesFile_def nickelLines_def elasticLines_def eval_defs
        cong: let_weak_cong)

section \<open>The row traversal\<close>






text \<open>
  For positive column counts a row has as many records as it is wide, so that
  \<open>recordsBefore\<close> is the sum of the widths of the rows before.
\<close>

lemma records_in_row: "w \<noteq> 0 \<Longrightarrow> Suc (unat (w - 1)) = unat (w::size_t)"
  by (metis Suc_pred' unat_gt_0 unat_minus_one)


end
